theory Spec2Isabelle
  imports Complex_Main "HOL-Library.AList"
begin

section \<open>Python values and exceptions\<close>

text \<open>
  The program (\<^verbatim>\<open>src/main.py\<close>) fetches a JSON list of records over HTTP, adds a
  length field to every record, filters the records by that length and upserts them
  into an SQLite table. Every exception the code can raise is a value of
  \<open>py_error\<close>; a function that may raise returns \<open>py_error + 'a\<close>, with \<open>Inl\<close>
  for the exception.
\<close>

datatype py_error =
    ConnectionError
  | RequestException
  | TypeError
  | ValueError
  | KeyError
  | IndexError
  | UnboundLocalError
  | OverflowError
  | OperationalError
  | IntegrityError
  | ProgrammingError

text \<open>
  The values a decoded JSON body holds. A string is a list of characters and \<open>len\<close>
  counts them; floating-point numbers are left out of the model.
\<close>

datatype pyval =
    PNone
  | PBool bool
  | PInt int
  | PStr string
  | PList "pyval list"
  | PDict "(string \<times> pyval) list"

text \<open>
  A record is a Python \<open>dict\<close> with string keys. A \<open>dict\<close> keeps its keys in insertion
  order, and \<open>upsert_data\<close> reads that order, so a record is an association list.
\<close>

type_synonym record_ = "(string \<times> pyval) list"

section \<open>The retrying fetcher\<close>












section \<open>The record transformer\<close>

text \<open>\<open>i[key]\<close> raises \<open>KeyError\<close> for a missing key; \<open>i.get(key)\<close> gives \<open>None\<close> instead.\<close>

definition getitem :: "record_ \<Rightarrow> string \<Rightarrow> py_error + pyval" where
  "getitem i key = (case map_of i key of None \<Rightarrow> Inl KeyError | Some v \<Rightarrow> Inr v)"

definition dict_get :: "record_ \<Rightarrow> string \<Rightarrow> pyval" where
  "dict_get i key = (case map_of i key of None \<Rightarrow> PNone | Some v \<Rightarrow> v)"

text \<open>
  \<open>i[key] = v\<close> overwrites the value of a key the \<open>dict\<close> has, in place, and appends a
  new key at the end: \<^const>\<open>AList.update\<close>.
\<close>

definition setitem :: "record_ \<Rightarrow> string \<Rightarrow> pyval \<Rightarrow> record_" where
  "setitem i key v = AList.update key v i"

text \<open>\<open>len(v)\<close>: strings, lists and dicts have a length, the other values raise.\<close>

fun py_len :: "pyval \<Rightarrow> py_error + int" where
  "py_len (PStr s) = Inr (int (length s))"
| "py_len (PList xs) = Inr (int (length xs))"
| "py_len (PDict kvs) = Inr (int (length kvs))"
| "py_len PNone = Inl TypeError"
| "py_len (PBool b) = Inl TypeError"
| "py_len (PInt n) = Inl TypeError"

text \<open>
  \<open>add_length\<close> changes every \<open>dict\<close> of \<open>data\<close> in place and returns \<open>None\<close>. The model
  returns the result of the call with the list as the call leaves it: when a record
  raises, the records before it have their new field already.
\<close>

fun add_length :: "record_ list \<Rightarrow> string \<Rightarrow> (py_error + unit) \<times> record_ list" where
  "add_length [] key = (Inr (), [])"
| "add_length (i # rest) key =
     (case getitem i key of
        Inl e \<Rightarrow> (Inl e, i # rest)
      | Inr v \<Rightarrow>
          (case py_len v of
             Inl e \<Rightarrow> (Inl e, i # rest)
           | Inr n \<Rightarrow>
               (case add_length rest key of
                  (result, rest') \<Rightarrow> (result, setitem i (key @ ''_length'') (PInt n) # rest'))))"

text \<open>
  \<open>v >= min_length\<close> with an \<open>int\<close> on the right: an \<open>int\<close> or a \<open>bool\<close> (which is an
  \<open>int\<close> in Python) on the left is compared, any other value raises \<open>TypeError\<close>.
\<close>

fun as_int :: "pyval \<Rightarrow> int option" where
  "as_int (PInt n) = Some n"
| "as_int (PBool b) = Some (if b then 1 else 0)"
| "as_int PNone = None"
| "as_int (PStr s) = None"
| "as_int (PList xs) = None"
| "as_int (PDict kvs) = None"

definition py_ge :: "pyval \<Rightarrow> int \<Rightarrow> py_error + bool" where
  "py_ge v min_length =
     (case as_int v of None \<Rightarrow> Inl TypeError | Some n \<Rightarrow> Inr (min_length \<le> n))"

text \<open>The loop of \<open>filter_data\<close>, with \<open>filtered_data\<close> as the accumulator.\<close>

fun filter_loop :: "record_ list \<Rightarrow> string \<Rightarrow> int \<Rightarrow> record_ list \<Rightarrow> py_error + record_ list" where
  "filter_loop [] key min_length filtered_data = Inr filtered_data"
| "filter_loop (i # rest) key min_length filtered_data =
     (case py_ge (dict_get i key) min_length of
        Inl e \<Rightarrow> Inl e
      | Inr keep \<Rightarrow>
          filter_loop rest key min_length (if keep then filtered_data @ [i] else filtered_data))"

definition filter_data :: "record_ list \<Rightarrow> string \<Rightarrow> int \<Rightarrow> py_error + record_ list" where
  "filter_data data key min_length = filter_loop data key min_length []"

text \<open>The record holds an integer of at least \<open>m\<close> under \<open>key\<close>.\<close>

definition at_least :: "string \<Rightarrow> int \<Rightarrow> record_ \<Rightarrow> bool" where
  "at_least key m i = (case as_int (dict_get i key) of None \<Rightarrow> False | Some n \<Rightarrow> m \<le> n)"

text \<open>The four records of the repository's test fixture.\<close>

definition mock_data :: "record_ list" where
  "mock_data =
     [[(''id'', PInt 100), (''title'', PStr ''Post 100''), (''body'', PStr ''Incoming body 1'')],
      [(''id'', PInt 101), (''title'', PStr ''Post 101''), (''body'', PStr ''Incoming body 2'')],
      [(''id'', PInt 102), (''title'', PStr ''Post 102''), (''body'', PStr ''Incoming body 3'')],
      [(''id'', PInt 103), (''title'', PStr ''Post''), (''body'', PStr ''Incoming body 4'')]]"

subsection \<open>Remote ends used in the examples\<close>




subsection \<open>Batches used in the examples\<close>

text \<open>The batch of the spec's example, after the length of \<open>title\<close> has been added.\<close>

definition measured_batch :: "record_ list" where
  "measured_batch =
     [[(''id'', PInt 100), (''title'', PStr ''Post 100''), (''title_length'', PInt 8)],
      [(''id'', PInt 103), (''title'', PStr ''Post''), (''title_length'', PInt 4)]]"

text \<open>A batch whose second record has neither \<open>title\<close> nor \<open>title_length\<close>.\<close>

definition ragged_batch :: "record_ list" where
  "ragged_batch =
     [[(''id'', PInt 100), (''title'', PStr ''Post 100''), (''title_length'', PInt 8)],
      [(''id'', PInt 101)],
      [(''id'', PInt 102), (''title'', PStr ''Post 102''), (''title_length'', PInt 8)]]"

section \<open>The upsert writer\<close>

subsection \<open>The storage engine\<close>

text \<open>
  \<open>upsert_data\<close> talks to SQLite through Python's \<open>sqlite3\<close> module. The model of the
  engine covers what the two statements of the program use: tables with typed
  columns, \<open>NOT NULL\<close>, a single-column \<open>PRIMARY KEY\<close>, \<open>CREATE TABLE IF NOT EXISTS\<close>,
  \<open>INSERT ... ON CONFLICT (key) DO UPDATE SET ...\<close> and the module's transaction
  handling. The engine is deterministic: failures of the environment (an unreadable
  file, a lock held by another process) are outside the model.
\<close>

datatype sqlval = SNull | SInt int | SText string

datatype sqltype = SqlInt | SqlVarchar

record column =
  cname :: string
  ctype :: sqltype
  notnull :: bool
  primary_key :: bool

record sqltable =
  tbl_columns :: "column list"
  tbl_rows :: "sqlval list list"

text \<open>A database: its tables by name, in the order of their creation.\<close>

type_synonym database = "(string \<times> sqltable) list"

text \<open>
  Two parts of SQLite are parameters of the model. \<open>accepts_name\<close> says which table
  names the SQL parser accepts where the program pastes the name into the statement
  text. \<open>affinity\<close> is the conversion a column of a given type applies to a value
  before storing it.
\<close>

record engine =
  accepts_name :: "string \<Rightarrow> bool"
  affinity :: "sqltype \<Rightarrow> sqlval \<Rightarrow> sqlval"

text \<open>
  The state outside the program: the committed content of the database file
  \<^verbatim>\<open>./request_results.db\<close> and the number of connections that are open.
\<close>

record storage =
  disk :: database
  open_connections :: nat

text \<open>
  A connection sees the committed data and its own writes. Writes reach \<open>disk\<close> when
  they are committed; the writes of a connection that is dropped without a commit
  are lost.
\<close>

record connection =
  pending :: database

definition connect_to_database :: "storage \<Rightarrow> connection \<times> storage" where
  "connect_to_database w =
     (\<lparr>pending = disk w\<rparr>, w\<lparr>open_connections := Suc (open_connections w)\<rparr>)"

definition commit :: "connection \<Rightarrow> storage \<Rightarrow> storage" where
  "commit conn w = w\<lparr>disk := pending conn\<rparr>"

definition close :: "connection \<Rightarrow> storage \<Rightarrow> storage" where
  "close conn w = w\<lparr>open_connections := open_connections w - 1\<rparr>"

subsection \<open>Creating the table\<close>

text \<open>
  The column list of the \<open>CREATE TABLE\<close> statement in \<open>create_table_if_not_exists\<close>:
  \<^verbatim>\<open>id INT PRIMARY KEY NOT NULL, title VARCHAR NOT NULL, body VARCHAR NULL,
  title_length INT NOT NULL\<close>.
\<close>

definition table_columns :: "column list" where
  "table_columns =
     [\<lparr>cname = ''id'', ctype = SqlInt, notnull = True, primary_key = True\<rparr>,
      \<lparr>cname = ''title'', ctype = SqlVarchar, notnull = True, primary_key = False\<rparr>,
      \<lparr>cname = ''body'', ctype = SqlVarchar, notnull = False, primary_key = False\<rparr>,
      \<lparr>cname = ''title_length'', ctype = SqlInt, notnull = True, primary_key = False\<rparr>]"

text \<open>\<open>CREATE TABLE IF NOT EXISTS name (...)\<close> on a database: a table of that name stays as it is.\<close>

definition ensure_table :: "string \<Rightarrow> database \<Rightarrow> database" where
  "ensure_table name db =
     (case map_of db name of
        Some t \<Rightarrow> db
      | None \<Rightarrow> db @ [(name, \<lparr>tbl_columns = table_columns, tbl_rows = []\<rparr>)])"

text \<open>
  The \<open>sqlite3\<close> module opens a transaction before \<open>INSERT\<close>, \<open>UPDATE\<close>, \<open>DELETE\<close> and
  \<open>REPLACE\<close> only. \<open>CREATE TABLE\<close> runs outside a transaction here, so SQLite commits
  it at once: the new table is on \<open>disk\<close> when the statement returns.
\<close>

definition create_table_if_not_exists ::
  "engine \<Rightarrow> string \<Rightarrow> connection \<Rightarrow> storage \<Rightarrow> py_error + connection \<times> storage" where
  "create_table_if_not_exists eng name conn w =
     (if \<not> accepts_name eng name then Inl OperationalError
      else Inr (conn\<lparr>pending := ensure_table name (pending conn)\<rparr>,
                w\<lparr>disk := ensure_table name (disk w)\<rparr>))"

subsection \<open>The upsert statement\<close>

text \<open>
  The statement \<open>upsert_data\<close> builds:
  \<^verbatim>\<open>INSERT INTO {table_name} VALUES ({placeholders})
  ON CONFLICT({merge_column}) DO UPDATE SET {set_map}\<close>,
  with one \<open>?\<close> per key of the first record and one \<open>column=excluded.column\<close> per key
  of the first record other than \<open>merge_column\<close>.
\<close>

record upsert_statement =
  into_table :: string
  placeholders :: nat
  conflict_column :: string
  set_columns :: "string list"

text \<open>
  Compiling the statement. SQLite refuses it (\<open>OperationalError\<close>) when the table is
  missing, when the number of values is not the number of columns of the table, when
  the conflict target is not the primary key of the table, when the \<open>SET\<close> list is
  empty, or when the \<open>SET\<close> list names a column the table does not have. Names are
  compared as they are written.
\<close>

definition prepare :: "upsert_statement \<Rightarrow> database \<Rightarrow> py_error + sqltable" where
  "prepare stmt db =
     (case map_of db (into_table stmt) of
        None \<Rightarrow> Inl OperationalError
      | Some t \<Rightarrow>
          if placeholders stmt \<noteq> length (tbl_columns t) then Inl OperationalError
          else if map cname (filter primary_key (tbl_columns t)) \<noteq> [conflict_column stmt]
            then Inl OperationalError
          else if set_columns stmt = [] then Inl OperationalError
          else if \<not> list_all (\<lambda>c. c \<in> set (map cname (tbl_columns t))) (set_columns stmt)
            then Inl OperationalError
          else Inr t)"

text \<open>
  Binding one Python value to a \<open>?\<close>: \<open>None\<close>, integers that fit 64 bits and strings are
  accepted, a \<open>bool\<close> is bound as an integer, a list or a dict is refused
  (\<open>ProgrammingError\<close>; \<open>InterfaceError\<close> before Python 3.11, a \<open>sqlite3.Error\<close> as
  well).
\<close>

fun bind_param :: "pyval \<Rightarrow> py_error + sqlval" where
  "bind_param PNone = Inr SNull"
| "bind_param (PBool b) = Inr (SInt (if b then 1 else 0))"
| "bind_param (PInt n) =
     (if - (2 ^ 63) \<le> n \<and> n < 2 ^ 63 then Inr (SInt n) else Inl OverflowError)"
| "bind_param (PStr s) = Inr (SText s)"
| "bind_param (PList xs) = Inl ProgrammingError"
| "bind_param (PDict kvs) = Inl ProgrammingError"

fun bind_params :: "pyval list \<Rightarrow> py_error + sqlval list" where
  "bind_params [] = Inr []"
| "bind_params (v # vs) =
     (case bind_param v of
        Inl e \<Rightarrow> Inl e
      | Inr b \<Rightarrow> (case bind_params vs of Inl e \<Rightarrow> Inl e | Inr bs \<Rightarrow> Inr (b # bs)))"

text \<open>The row as the table would store it: value \<open>j\<close> goes to column \<open>j\<close>.\<close>

definition stored_row :: "engine \<Rightarrow> column list \<Rightarrow> sqlval list \<Rightarrow> sqlval list" where
  "stored_row eng cols bs = map (\<lambda>(c, b). affinity eng (ctype c) b) (zip cols bs)"

definition violates_notnull :: "column list \<Rightarrow> sqlval list \<Rightarrow> bool" where
  "violates_notnull cols row = list_ex (\<lambda>(c, v). notnull c \<and> v = SNull) (zip cols row)"

text \<open>
  The row one tuple of \<open>values\<close> proposes, or the error it raises: a tuple of the wrong
  size (\<open>ProgrammingError\<close>), a value that cannot be bound, or \<open>NULL\<close> in a \<open>NOT NULL\<close>
  column (\<open>IntegrityError\<close>; the upsert clause does not step in for it).
\<close>

definition proposed_row ::
  "engine \<Rightarrow> upsert_statement \<Rightarrow> column list \<Rightarrow> pyval list \<Rightarrow> py_error + sqlval list" where
  "proposed_row eng stmt cols vs =
     (if length vs \<noteq> placeholders stmt then Inl ProgrammingError
      else case bind_params vs of
             Inl e \<Rightarrow> Inl e
           | Inr bs \<Rightarrow>
               if violates_notnull cols (stored_row eng cols bs) then Inl IntegrityError
               else Inr (stored_row eng cols bs))"

text \<open>The value of a row in column \<open>k\<close>; a row that is too short has none.\<close>

definition cell :: "nat \<Rightarrow> sqlval list \<Rightarrow> sqlval" where
  "cell k row = (if k < length row then row ! k else SNull)"

text \<open>The index of the primary key among the columns.\<close>

fun key_index :: "column list \<Rightarrow> nat" where
  "key_index [] = 0"
| "key_index (c # cs) = (if primary_key c then 0 else Suc (key_index cs))"

text \<open>Which columns \<open>DO UPDATE SET\<close> overwrites.\<close>

definition set_mask :: "upsert_statement \<Rightarrow> column list \<Rightarrow> bool list" where
  "set_mask stmt cols = map (\<lambda>c. cname c \<in> set (set_columns stmt)) cols"

text \<open>\<open>DO UPDATE SET c = excluded.c, ...\<close>: the masked columns take the proposed values.\<close>

fun merge_row :: "bool list \<Rightarrow> sqlval list \<Rightarrow> sqlval list \<Rightarrow> sqlval list" where
  "merge_row (m # ms) (old # olds) (new # news) = (if m then new else old) # merge_row ms olds news"
| "merge_row ms olds news = []"

text \<open>What the upsert of the row \<open>new\<close> does to a row \<open>old\<close> of the table.\<close>

definition update_on_conflict :: "nat \<Rightarrow> bool list \<Rightarrow> sqlval list \<Rightarrow> sqlval list \<Rightarrow> sqlval list" where
  "update_on_conflict k ms new old =
     (if cell k old = cell k new then merge_row ms old new else old)"

text \<open>
  One row of the upsert: a row with the same key (never \<open>NULL\<close>, which conflicts with
  nothing) is updated in place, otherwise the proposed row is inserted. The key is
  unique in the table, so at most one row is updated.
\<close>

definition upsert_row :: "nat \<Rightarrow> bool list \<Rightarrow> sqlval list list \<Rightarrow> sqlval list \<Rightarrow> sqlval list list" where
  "upsert_row k ms rows new =
     (if cell k new \<noteq> SNull \<and> list_ex (\<lambda>old. cell k old = cell k new) rows
      then map (update_on_conflict k ms new) rows
      else rows @ [new])"

text \<open>
  The loop of \<open>executemany\<close> over the tuples. A tuple that raises ends the loop; the
  rows written before it stay in the open transaction of the connection, which the
  program never commits.
\<close>

fun execute_rows ::
  "engine \<Rightarrow> upsert_statement \<Rightarrow> column list \<Rightarrow> pyval list list \<Rightarrow> sqlval list list
     \<Rightarrow> py_error + sqlval list list" where
  "execute_rows eng stmt cols [] rows = Inr rows"
| "execute_rows eng stmt cols (vs # rest) rows =
     (case proposed_row eng stmt cols vs of
        Inl e \<Rightarrow> Inl e
      | Inr new \<Rightarrow>
          execute_rows eng stmt cols rest
            (upsert_row (key_index cols) (set_mask stmt cols) rows new))"

definition executemany ::
  "engine \<Rightarrow> upsert_statement \<Rightarrow> pyval list list \<Rightarrow> connection \<Rightarrow> py_error + connection" where
  "executemany eng stmt values conn =
     (case prepare stmt (pending conn) of
        Inl e \<Rightarrow> Inl e
      | Inr t \<Rightarrow>
          (case execute_rows eng stmt (tbl_columns t) values (tbl_rows t) of
             Inl e \<Rightarrow> Inl e
           | Inr rows \<Rightarrow>
               Inr (conn\<lparr>pending :=
                      AList.update (into_table stmt) (t\<lparr>tbl_rows := rows\<rparr>) (pending conn)\<rparr>)))"

subsection \<open>The writer\<close>

text \<open>
  \<open>data[0]\<close> raises \<open>IndexError\<close> on an empty list. The handler of the \<open>try\<close> block is
  \<open>except sqlite3.Error as e: raise e\<close>: an error leaves the function after the
  connection was opened, with neither \<open>commit\<close> nor \<open>close\<close>.
\<close>

definition upsert_data ::
  "engine \<Rightarrow> record_ list \<Rightarrow> string \<Rightarrow> string \<Rightarrow> storage \<Rightarrow> (py_error + unit) \<times> storage" where
  "upsert_data eng data table_name merge_column w =
     (case data of
        [] \<Rightarrow> (Inl IndexError, w)
      | first # others \<Rightarrow>
          (let columns = map fst first;
               stmt = \<lparr>into_table = table_name,
                       placeholders = length columns,
                       conflict_column = merge_column,
                       set_columns = filter (\<lambda>column. column \<noteq> merge_column) columns\<rparr>;
               values = map (map snd) data
           in case connect_to_database w of
                (conn, w1) \<Rightarrow>
                  (case create_table_if_not_exists eng table_name conn w1 of
                     Inl e \<Rightarrow> (Inl e, w1)
                   | Inr (conn2, w2) \<Rightarrow>
                       (case executemany eng stmt values conn2 of
                          Inl e \<Rightarrow> (Inl e, w2)
                        | Inr conn3 \<Rightarrow> (Inr (), close conn3 (commit conn3 w2))))))"

text \<open>The statement \<open>upsert_data\<close> builds for a batch that starts with the record \<open>first\<close>.\<close>

definition statement_for :: "record_ \<Rightarrow> string \<Rightarrow> string \<Rightarrow> upsert_statement" where
  "statement_for first table_name merge_column =
     \<lparr>into_table = table_name,
      placeholders = length (map fst first),
      conflict_column = merge_column,
      set_columns = filter (\<lambda>column. column \<noteq> merge_column) (map fst first)\<rparr>"

subsection \<open>An engine and batches used in the examples\<close>

text \<open>
  An engine that accepts lower-case names and stores every value as it is bound,
  which is what SQLite does with an integer in an \<open>INT\<close> column and a string in a
  \<open>VARCHAR\<close> column.
\<close>

definition plain_engine :: engine where
  "plain_engine =
     \<lparr>accepts_name =
        (\<lambda>name. name \<noteq> [] \<and> list_all (\<lambda>c. c \<in> set ''abcdefghijklmnopqrstuvwxyz_'') name),
      affinity = (\<lambda>ty v. v)\<rparr>"

text \<open>No table yet and no connection open.\<close>

definition storage0 :: storage where
  "storage0 = \<lparr>disk = [], open_connections = 0\<rparr>"









section \<open>Properties of the retrying fetcher\<close>















section \<open>Properties of the record transformer\<close>

lemma map_of_setitem: "map_of (setitem i key v) = (map_of i)(key \<mapsto> v)"
  by (simp add: setitem_def update_conv')

lemma add_length_sized:
  assumes "\<forall>i\<in>set data. \<exists>v n. map_of i key = Some v \<and> py_len v = Inr n"
  shows "add_length data key =
    (Inr (), map (\<lambda>i. setitem i (key @ ''_length'')
                     (PInt (case py_len (dict_get i key) of Inr n \<Rightarrow> n | Inl e \<Rightarrow> 0))) data)"
  using assms
proof (induction data)
  case Nil
  show ?case by simp
next
  case (Cons i rest)
  then obtain v n where "map_of i key = Some v" "py_len v = Inr n" by auto
  with Cons show ?case by (simp add: getitem_def dict_get_def)
qed

lemma add_length_missing:
  assumes "\<exists>i\<in>set data. map_of i key = None"
  shows "\<exists>e. fst (add_length data key) = Inl e"
  using assms
proof (induction data)
  case Nil
  then show ?case by simp
next
  case (Cons i rest)
  show ?case
  proof (cases "map_of i key")
    case None
    then show ?thesis by (simp add: getitem_def)
  next
    case (Some v)
    with Cons.prems have "\<exists>i\<in>set rest. map_of i key = None" by auto
    with Cons.IH obtain e where "fst (add_length rest key) = Inl e" by blast
    with Some show ?thesis
      by (cases "py_len v") (auto simp: getitem_def split: prod.splits)
  qed
qed

lemma filter_loop_ints:
  assumes "\<forall>i\<in>set data. \<exists>n. as_int (dict_get i key) = Some n"
  shows "filter_loop data key m acc = Inr (acc @ filter (at_least key m) data)"
  using assms
proof (induction data arbitrary: acc)
  case Nil
  show ?case by simp
next
  case (Cons i rest)
  then obtain n where n: "as_int (dict_get i key) = Some n" by auto
  from Cons show ?case
    by (simp add: py_ge_def at_least_def n)
qed

lemma filter_loop_missing:
  assumes "\<exists>i\<in>set data. map_of i key = None"
  shows "filter_loop data key m acc = Inl TypeError"
  using assms
proof (induction data arbitrary: acc)
  case Nil
  then show ?case by simp
next
  case (Cons i rest)
  show ?case
  proof (cases "py_ge (dict_get i key) m")
    case (Inl e)
    then show ?thesis by (simp add: py_ge_def split: option.splits)
  next
    case (Inr keep)
    then have "map_of i key \<noteq> None"
      by (auto simp: py_ge_def dict_get_def split: option.splits)
    with Cons.prems have "\<exists>i\<in>set rest. map_of i key = None" by auto
    with Inr Cons.IH show ?thesis by simp
  qed
qed

text \<open>
  Claim C6, as stated, for every field present in every record. The code does not do
  that for a field whose value has no length: every record of the test fixture has
  the field \<open>id\<close>, an integer, and \<open>len\<close> of an integer raises \<open>TypeError\<close>, so the call
  fails at the first record and no record gets a field \<open>id_length\<close>.
\<close>

theorem add_length_integer_field:
  "map (\<lambda>i. map_of i ''id'') mock_data =
     [Some (PInt 100), Some (PInt 101), Some (PInt 102), Some (PInt 103)]
   \<and> add_length mock_data ''id'' = (Inl TypeError, mock_data)
   \<and> map (\<lambda>i. map_of i ''id_length'') (snd (add_length mock_data ''id'')) =
       [None, None, None, None]"
  by (simp add: mock_data_def getitem_def)

text \<open>
  Claim C6, amended: for every batch and every field \<open>f\<close> that every record of the
  batch holds with a value that has a length (a string, a list or a dict),
  \<open>add_length\<close> returns normally and leaves a batch of the same records, in the same
  order, each with the field \<open>f_length\<close> equal to the length of its value at \<open>f\<close>; no
  record is left out, and no other field of a record is changed.
\<close>

theorem add_length_derives:
  assumes "\<forall>i\<in>set data. \<exists>v n. map_of i key = Some v \<and> py_len v = Inr n"
  shows "fst (add_length data key) = Inr ()
       \<and> length (snd (add_length data key)) = length data
       \<and> (\<forall>k<length data. \<exists>v n.
             map_of (data ! k) key = Some v \<and> py_len v = Inr n
           \<and> map_of (snd (add_length data key) ! k) (key @ ''_length'') = Some (PInt n)
           \<and> (\<forall>g. g \<noteq> key @ ''_length''
                 \<longrightarrow> map_of (snd (add_length data key) ! k) g = map_of (data ! k) g))"
proof -
  note eq = add_length_sized [OF assms]
  have "\<exists>v n. map_of (data ! k) key = Some v \<and> py_len v = Inr n
           \<and> map_of (snd (add_length data key) ! k) (key @ ''_length'') = Some (PInt n)
           \<and> (\<forall>g. g \<noteq> key @ ''_length''
                 \<longrightarrow> map_of (snd (add_length data key) ! k) g = map_of (data ! k) g)"
    if k: "k < length data" for k
  proof -
    from k assms obtain v n where vn: "map_of (data ! k) key = Some v" "py_len v = Inr n"
      by (meson nth_mem)
    with k show ?thesis
      by (simp add: eq map_of_setitem dict_get_def)
  qed
  then show ?thesis by (simp add: eq)
qed

text \<open>
  Claim C6, amended, at the test fixture and the field \<open>title\<close>: the lengths 8, 8, 8 and
  4 are added, as in the spec's example.
\<close>

theorem add_length_derives_witness:
  "fst (add_length mock_data ''title'') = Inr ()
   \<and> map (\<lambda>i. map_of i ''title_length'') (snd (add_length mock_data ''title'')) =
       [Some (PInt 8), Some (PInt 8), Some (PInt 8), Some (PInt 4)]"
proof -
  have h: "\<forall>i\<in>set mock_data. \<exists>v n. map_of i ''title'' = Some v \<and> py_len v = Inr n"
    by (simp add: mock_data_def)
  have run: "map (\<lambda>i. map_of i ''title_length'') (snd (add_length mock_data ''title'')) =
       [Some (PInt 8), Some (PInt 8), Some (PInt 8), Some (PInt 4)]"
    by (simp add: mock_data_def getitem_def setitem_def)
  from add_length_derives [OF h] run show ?thesis by simp
qed

text \<open>
  Claim C7, as stated, for every batch whose records all have the field. The code
  does not do that when the field does not hold an integer: every record of the test
  fixture has the field \<open>title\<close>, a string, and comparing a string with the integer
  threshold raises \<open>TypeError\<close>, so nothing is returned.
\<close>

theorem filter_data_string_field:
  "map (\<lambda>i. map_of i ''title'') mock_data =
     [Some (PStr ''Post 100''), Some (PStr ''Post 101''), Some (PStr ''Post 102''),
      Some (PStr ''Post'')]
   \<and> filter_data mock_data ''title'' 5 = Inl TypeError"
  by (simp add: mock_data_def filter_data_def py_ge_def dict_get_def)

text \<open>
  Claim C7, amended: for every batch in which every record holds an integer under
  \<open>length_field\<close>, and every threshold \<open>m\<close>, \<open>filter_data\<close> returns exactly the records
  whose value at \<open>length_field\<close> is at least \<open>m\<close>, in the order of the batch, and the
  result is no longer than the batch.
\<close>

theorem filter_data_subsequence:
  assumes "\<forall>i\<in>set data. \<exists>v n. map_of i key = Some v \<and> as_int v = Some n"
  shows "filter_data data key m = Inr (filter (at_least key m) data)
       \<and> length (filter (at_least key m) data) \<le> length data
       \<and> (\<forall>i\<in>set data. at_least key m i
            = (\<exists>v n. map_of i key = Some v \<and> as_int v = Some n \<and> m \<le> n))"
proof -
  from assms have "\<forall>i\<in>set data. \<exists>n. as_int (dict_get i key) = Some n"
    by (fastforce simp: dict_get_def)
  then have "filter_data data key m = Inr (filter (at_least key m) data)"
    by (simp add: filter_data_def filter_loop_ints)
  moreover have "\<forall>i\<in>set data. at_least key m i
            = (\<exists>v n. map_of i key = Some v \<and> as_int v = Some n \<and> m \<le> n)"
    using assms by (fastforce simp: at_least_def dict_get_def)
  ultimately show ?thesis by simp
qed

text \<open>
  Claim C7, amended, at the spec's example: of the records with title lengths 8 and 4
  only the first has a length of at least 5.
\<close>

theorem filter_data_subsequence_witness:
  "filter_data measured_batch ''title_length'' 5 =
     Inr [[(''id'', PInt 100), (''title'', PStr ''Post 100''), (''title_length'', PInt 8)]]"
proof -
  have h: "\<forall>i\<in>set measured_batch. \<exists>v n. map_of i ''title_length'' = Some v \<and> as_int v = Some n"
    by (simp add: measured_batch_def)
  from filter_data_subsequence [OF h, of 5] show ?thesis
    by (simp add: measured_batch_def at_least_def dict_get_def)
qed

text \<open>
  Claim C8: for every batch with a record that lacks the given field, both transform
  operations fail for the whole batch: \<open>add_length\<close> raises (\<open>KeyError\<close> at that record,
  unless an earlier record has raised already) and \<open>filter_data\<close> raises \<open>TypeError\<close>
  (the missing value reads as \<open>None\<close>, which cannot be compared with the threshold);
  neither skips or excludes the record.
\<close>

theorem transform_missing_field_fails:
  "(\<exists>i\<in>set data. map_of i key = None)
   \<longrightarrow> (\<exists>e. fst (add_length data key) = Inl e) \<and> filter_data data key min_length = Inl TypeError"
  by (simp add: add_length_missing filter_loop_missing filter_data_def)

text \<open>
  Claim C8 at a batch of three records whose second record has neither \<open>title\<close> nor
  \<open>title_length\<close>: adding the length of \<open>title\<close> raises, and so does filtering by
  \<open>title_length\<close>, although the first and the third record have both fields and would
  pass the filter.
\<close>

theorem transform_missing_field_fails_witness:
  "fst (add_length ragged_batch ''title'') = Inl KeyError
   \<and> filter_data ragged_batch ''title_length'' 5 = Inl TypeError
   \<and> map (\<lambda>i. map_of i ''title'') ragged_batch =
       [Some (PStr ''Post 100''), None, Some (PStr ''Post 102'')]
   \<and> map (\<lambda>i. map_of i ''title_length'') ragged_batch =
       [Some (PInt 8), None, Some (PInt 8)]"
proof -
  have h: "\<exists>i\<in>set ragged_batch. map_of i ''title'' = None"
    "\<exists>i\<in>set ragged_batch. map_of i ''title_length'' = None"
    by (simp_all add: ragged_batch_def)
  have run: "fst (add_length ragged_batch ''title'') = Inl KeyError"
    by (simp add: ragged_batch_def getitem_def setitem_def)
  from transform_missing_field_fails [of ragged_batch "''title''" 5]
    transform_missing_field_fails [of ragged_batch "''title_length''" 5] h run
  show ?thesis
    by (simp add: ragged_batch_def)
qed

section \<open>Properties of the upsert writer\<close>

subsection \<open>Rows\<close>














subsection \<open>Tables and calls\<close>
















lemma into_table_statement_for [simp]:
  "into_table (statement_for first table_name merge_column) = table_name"
  by (simp add: statement_for_def)


subsection \<open>The claims about the writer\<close>












text \<open>
  Claim C10: on the empty batch \<open>upsert_data\<close> raises \<open>IndexError\<close> at \<open>data[0]\<close>, before
  a connection is opened: the storage is left exactly as it was, so no table is
  created, no table is modified and no connection is open that was not open before.
\<close>

theorem upsert_data_empty_batch:
  "upsert_data eng [] table_name merge_column w = (Inl IndexError, w)"
  by (simp add: upsert_data_def)

text \<open>Claim C10 on a storage without tables.\<close>

theorem upsert_data_empty_batch_witness:
  "upsert_data plain_engine [] ''posts'' ''id'' storage0 = (Inl IndexError, storage0)"
  by (rule upsert_data_empty_batch)

end
